theory Spec2Isabelle
  imports Complex_Main
begin

section \<open>The dashboard: data model\<close>

text \<open>
  The program (\<^verbatim>\<open>dashboard.py\<close>) reads a table of market quotes from an open workbook,
  falls back to a CSV snapshot, drops the rows without an instrument identifier, keeps
  eight columns and renders the result. The libraries it calls (pandas, xlwings, the file
  system, the user-interface toolkit) are modelled by the values they hand to the program.
\<close>

subsection \<open>Cells and tables\<close>

text \<open>
  A cell of a table is a missing value (Python's \<^verbatim>\<open>None\<close> or a float NaN, which
  pandas' \<^verbatim>\<open>isna\<close> treats alike), a string or a number. The program never computes with
  the numbers, so a number is carried as a real.
\<close>

datatype cell = Null | Str string | Num real

text \<open>
  A \<^verbatim>\<open>pandas.DataFrame\<close>: the column labels in order and the rows in order, each row
  holding one cell per column. Labels may repeat, as pandas allows.
\<close>

record DataFrame =
  columns :: "string list"
  rows :: "cell list list"

text \<open>\<^verbatim>\<open>pd.DataFrame()\<close>: no columns and no rows.\<close>

definition pd_DataFrame :: DataFrame where
  "pd_DataFrame = \<lparr>columns = [], rows = []\<rparr>"

text \<open>\<^verbatim>\<open>df.empty\<close>: true when either axis has length zero.\<close>

definition df_empty :: "DataFrame \<Rightarrow> bool" where
  "df_empty df = (columns df = [] \<or> rows df = [])"

text \<open>The cell of a row at a column position; a row too short reads as missing there.\<close>

definition cell_at :: "cell list \<Rightarrow> nat \<Rightarrow> cell" where
  "cell_at r i = (if i < length r then r ! i else Null)"

text \<open>
  The positions of the columns that carry a label, in order (pandas'
  \<^verbatim>\<open>Index.get_indexer_for\<close>): one position for a label that occurs once, several for a
  repeated label, none for an absent one.
\<close>

fun indexer :: "nat \<Rightarrow> string list \<Rightarrow> string \<Rightarrow> nat list" where
  "indexer k [] c = []"
| "indexer k (x # xs) c = (if x = c then k # indexer (Suc k) xs c else indexer (Suc k) xs c)"

definition get_indexer_for :: "string list \<Rightarrow> string \<Rightarrow> nat list" where
  "get_indexer_for cols c = indexer 0 cols c"

subsection \<open>Exceptions\<close>

text \<open>
  Every exception of the program derives from Python's \<^verbatim>\<open>Exception\<close>. The ones raised by
  the outside world carry their message; a \<^verbatim>\<open>KeyError\<close> of pandas carries the labels that
  were not found.
\<close>

datatype exn = Exception string | KeyError "string list"

fun repr_list :: "string list \<Rightarrow> string" where
  "repr_list [] = []"
| "repr_list [x] = [CHR 0x27] @ x @ [CHR 0x27]"
| "repr_list (x # y # ys) = [CHR 0x27] @ x @ [CHR 0x27] @ '', '' @ repr_list (y # ys)"

text \<open>\<^verbatim>\<open>str(e)\<close>, as the f-strings of the error banners format it.\<close>

fun str_exn :: "exn \<Rightarrow> string" where
  "str_exn (Exception m) = m"
| "str_exn (KeyError ks) = ''['' @ repr_list ks @ '']''"

subsection \<open>The two pandas operations of the cleaning step\<close>

text \<open>
  \<^verbatim>\<open>df.dropna(subset=labels)\<close>: raises \<^verbatim>\<open>KeyError\<close> when a label of the subset is not
  a column; otherwise keeps the rows that have no missing value in any column carrying a
  label of the subset. Only a missing value counts: an empty string is a value.
\<close>

definition dropna :: "string list \<Rightarrow> DataFrame \<Rightarrow> exn + DataFrame" where
  "dropna labels df =
     (let missing = filter (\<lambda>c. c \<notin> set (columns df)) labels;
          idx = concat (map (get_indexer_for (columns df)) labels)
      in if missing \<noteq> [] then Inl (KeyError missing)
         else Inr (df\<lparr>rows := filter (\<lambda>r. list_all (\<lambda>i. cell_at r i \<noteq> Null) idx) (rows df)\<rparr>))"

text \<open>
  \<^verbatim>\<open>df[labels]\<close> with a list of labels: raises \<^verbatim>\<open>KeyError\<close> when a label is not a
  column; otherwise the columns carrying the labels, in the order of the labels.
\<close>

definition getitem :: "DataFrame \<Rightarrow> string list \<Rightarrow> exn + DataFrame" where
  "getitem df key =
     (let missing = filter (\<lambda>c. c \<notin> set (columns df)) key;
          idx = concat (map (get_indexer_for (columns df)) key)
      in if missing \<noteq> [] then Inl (KeyError missing)
         else Inr \<lparr>columns = map (\<lambda>i. columns df ! i) idx,
                   rows = map (\<lambda>r. map (cell_at r) idx) (rows df)\<rparr>)"

section \<open>The outside world\<close>

text \<open>
  What one run of the script finds outside itself.
  \<^item> \<^verbatim>\<open>xw.Book(name)\<close> raises or gives a workbook; \<^verbatim>\<open>book.sheets[name]\<close> raises or
    gives a sheet; reading the block anchored at an address of the sheet as a DataFrame
    (\<^verbatim>\<open>header=1, index=False, expand='table'\<close>) raises or gives a table.
  \<^item> A path of the file system names no file, a file that cannot be opened or decoded,
    or a file with its lines of text.
  \<^item> pandas' CSV parser, given the index of the header row and the lines of a file, gives
    a table or raises. Which line it takes as header row (it counts after dropping blank
    lines), how it reads the fields and what it raises are its own.
  \<^item> The button with a given label was pressed for this run or not.
  \<^item> The clock: the time in seconds that the cache reads, and \<^verbatim>\<open>time.strftime\<close>.
\<close>

type_synonym sheet = "string \<Rightarrow> exn + DataFrame"
type_synonym book = "string \<Rightarrow> exn + sheet"

record world =
  xw_Book :: "string \<Rightarrow> exn + book"
  files :: "string \<Rightarrow> (exn + string list) option"
  pd_parser :: "nat \<Rightarrow> string list \<Rightarrow> exn + DataFrame"
  button :: "string \<Rightarrow> bool"
  now :: real
  strftime :: "string \<Rightarrow> string"

definition os_path_exists :: "world \<Rightarrow> string \<Rightarrow> bool" where
  "os_path_exists w path = (files w path \<noteq> None)"

text \<open>
  \<^verbatim>\<open>pd.read_csv(path, header=h)\<close>: the file is opened, which may raise, and its lines go
  to pandas' parser together with the index \<open>h\<close> of the header row. The program calls
  this only for a path that exists.
\<close>

definition read_csv :: "world \<Rightarrow> string \<Rightarrow> nat \<Rightarrow> exn + DataFrame" where
  "read_csv w path header =
     (case files w path of
        None \<Rightarrow> Inl (Exception ''No such file or directory'')
      | Some (Inl e) \<Rightarrow> Inl e
      | Some (Inr lines) \<Rightarrow> pd_parser w header lines)"

section \<open>The user interface\<close>

text \<open>
  The elements a run puts on the page, in the order of the calls. A \<open>Dataframe\<close> holds
  the arguments of \<^verbatim>\<open>st.dataframe\<close>: the table, \<^verbatim>\<open>hide_index\<close>,
  \<^verbatim>\<open>use_container_width\<close> and the column configuration; a \<open>NumberColumn\<close> holds its
  label and its format.
\<close>

datatype NumberColumn = NumberColumn string string

datatype element =
    PageConfig string
  | Title string
  | Markdown string
  | Header string
  | Button string
  | Balloons
  | Info string
  | Success string
  | Error string
  | Dataframe DataFrame bool bool "(string \<times> NumberColumn) list"
  | Caption string

section \<open>Data acquisition\<close>

definition EXCEL_FILE :: string where
  "EXCEL_FILE = ''Live_DAP.xlsx''"

definition SHEET_NAME :: string where
  "SHEET_NAME = ''DAP_Main''"

definition CSV_FALLBACK :: string where
  "CSV_FALLBACK = ''Live_DAP.xlsx - DAP_Main.csv''"

definition display_columns :: "string list" where
  "display_columns =
     [''Outrights'', ''Last'', ''Settle'', ''BidQty'', ''Bid'', ''Ask'', ''AskQty'', ''VWAP'']"

text \<open>The three calls of the live connection; the first that raises ends the attempt.\<close>

definition read_live :: "world \<Rightarrow> exn + DataFrame" where
  "read_live w =
     (case xw_Book w EXCEL_FILE of
        Inl e \<Rightarrow> Inl e
      | Inr book \<Rightarrow>
          (case book SHEET_NAME of
             Inl e \<Rightarrow> Inl e
           | Inr sheet \<Rightarrow> sheet ''A1''))"

text \<open>
  The end of \<^verbatim>\<open>get_live_data\<close>, after both \<^verbatim>\<open>try\<close> blocks: the rows without an
  instrument identifier are dropped and the display columns are selected. Nothing
  catches what these two calls raise.
\<close>

definition post_processing :: "DataFrame \<Rightarrow> exn + DataFrame" where
  "post_processing data =
     (case dropna [''Outrights''] data of
        Inl e \<Rightarrow> Inl e
      | Inr data' \<Rightarrow> getitem data' display_columns)"

text \<open>
  \<^verbatim>\<open>get_live_data\<close>, without its cache: the banners it shows, and the table it returns
  or the exception that leaves it.
\<close>

definition get_live_data :: "world \<Rightarrow> element list \<times> (exn + DataFrame)" where
  "get_live_data w =
     (case read_live w of
        Inr data \<Rightarrow>
          ([Success ''Successfully fetched data from live Excel sheet via xlwings.''],
           post_processing data)
      | Inl e \<Rightarrow>
          (let out = [Error (''Failed to connect to Excel with xlwings: '' @ str_exn e),
                      Info (''Falling back to reading the static CSV snapshot: '' @ CSV_FALLBACK)]
           in if os_path_exists w CSV_FALLBACK then
                (case read_csv w CSV_FALLBACK 1 of
                   Inr data \<Rightarrow> (out, post_processing data)
                 | Inl csv_e \<Rightarrow>
                     (out @ [Error (''Failed to read fallback CSV: '' @ str_exn csv_e)],
                      Inr pd_DataFrame))
              else
                (out @ [Error (''Fallback CSV file not found: '' @ CSV_FALLBACK)],
                 Inr pd_DataFrame)))"

section \<open>The cache around the acquisition\<close>

text \<open>
  \<^verbatim>\<open>@st.cache_data(ttl=2)\<close>: the function has no argument, so the cache holds at most
  one entry: the table returned, the banners shown while it was computed (replayed on a
  hit), and the time it was stored. An entry serves calls made less than \<open>ttl\<close> seconds
  after it was stored. A call that raises stores nothing.
\<close>

record cache_entry =
  stamp :: real
  data :: DataFrame
  messages :: "element list"

type_synonym cache = "cache_entry option"

definition ttl :: real where
  "ttl = 2"

definition fresh :: "cache \<Rightarrow> real \<Rightarrow> bool" where
  "fresh c t = (case c of None \<Rightarrow> False | Some e \<Rightarrow> t < stamp e + ttl)"

definition cached_get_live_data ::
  "world \<Rightarrow> cache \<Rightarrow> (element list \<times> (exn + DataFrame)) \<times> cache" where
  "cached_get_live_data w c =
     (case (if fresh c (now w) then c else None) of
        Some e \<Rightarrow> ((messages e, Inr (data e)), c)
      | None \<Rightarrow>
          (case get_live_data w of
             (out, Inr df) \<Rightarrow>
               ((out, Inr df), Some \<lparr>stamp = now w, data = df, messages = out\<rparr>)
           | (out, Inl e) \<Rightarrow> ((out, Inl e), c)))"

section \<open>The page\<close>

definition refresh_label :: string where
  "refresh_label = ''Force Refresh from Excel''"

definition no_data_message :: string where
  "no_data_message =
     ''No data to display. Please check file paths and ensure your Excel file is open if using xlwings.''"

text \<open>The \<^verbatim>\<open>column_config\<close> argument of \<^verbatim>\<open>st.dataframe\<close>: label and printf format.\<close>

definition column_config :: "(string \<times> NumberColumn) list" where
  "column_config =
     [(''Last'', NumberColumn ''Last'' ''%.3f''),
      (''Settle'', NumberColumn ''Settle'' ''%.3f''),
      (''Bid'', NumberColumn ''Bid'' ''%.3f''),
      (''Ask'', NumberColumn ''Ask'' ''%.3f''),
      (''VWAP'', NumberColumn ''VWAP'' ''%.4f'')]"

text \<open>
  What \<^verbatim>\<open>main\<close> puts on the page before it fetches the data. The title starts with a
  chart emoji (four bytes in UTF-8). The two layout columns only place the button and
  the hint; a pressed button adds the balloons and nothing else.
\<close>

definition page_top :: "world \<Rightarrow> element list" where
  "page_top w =
     [PageConfig ''wide'',
      Title ([CHR 0xF0, CHR 0x9F, CHR 0x93, CHR 0x88] @ '' Live Market Prices Dashboard''),
      Markdown ''---'',
      Header ''Manual Data Refresh'',
      Button refresh_label]
     @ (if button w refresh_label then [Balloons] else [])
     @ [Info (''Press the button to force a new read from the live Excel sheet. ''
              @ ''This is necessary to view updated prices if your Excel sheet is actively calculating.''),
        Markdown ''---'',
        Header ''DAP Main Market Prices - Live View'']"

text \<open>What \<^verbatim>\<open>main\<close> puts on the page for the table it fetched.\<close>

definition page_data :: "world \<Rightarrow> DataFrame \<Rightarrow> element list" where
  "page_data w df =
     (if \<not> df_empty df then
        [Dataframe df True True column_config,
         Caption (''Last updated: **'' @ strftime w ''%H:%M:%S'' @ ''**'')]
      else [Error no_data_message])"

text \<open>
  One run of \<^verbatim>\<open>main\<close>: the page, whether an exception left \<^verbatim>\<open>main\<close>, and the cache
  after the run.
\<close>

definition main :: "world \<Rightarrow> cache \<Rightarrow> (element list \<times> (exn + unit)) \<times> cache" where
  "main w c =
     (case cached_get_live_data w c of
        ((out, Inl e), c') \<Rightarrow> ((page_top w @ out, Inl e), c')
      | ((out, Inr df), c') \<Rightarrow> ((page_top w @ out @ page_data w df, Inr ()), c'))"

section \<open>Notions used to state the properties\<close>

text \<open>The table that the acquisition read, from the live sheet or else from the file.\<close>

definition reads_source :: "world \<Rightarrow> DataFrame \<Rightarrow> bool" where
  "reads_source w t =
     (case read_live w of
        Inr d \<Rightarrow> d = t
      | Inl e \<Rightarrow> os_path_exists w CSV_FALLBACK \<and> read_csv w CSV_FALLBACK 1 = Inr t)"

text \<open>
  The cell of a row under a label, by name: the label is looked up among the column
  labels paired with the cells of the row.
\<close>

definition value_at :: "DataFrame \<Rightarrow> cell list \<Rightarrow> string \<Rightarrow> cell" where
  "value_at t r c = (case map_of (zip (columns t) r) c of Some v \<Rightarrow> v | None \<Rightarrow> Null)"

text \<open>
  A table contains the eight named columns when each of the eight labels names exactly
  one of its columns; it may have other columns, in any order.
\<close>

definition has_display_columns :: "DataFrame \<Rightarrow> bool" where
  "has_display_columns t = list_all (\<lambda>c. count_list (columns t) c = 1) display_columns"

text \<open>The precision of a printf format of the shape \<^verbatim>\<open>%.Nf\<close> with one digit \<open>N\<close>.\<close>

definition printf_precision :: "string \<Rightarrow> nat option" where
  "printf_precision fmt =
     (case fmt of
        [p, q, d, f] \<Rightarrow>
          if p = CHR ''%'' \<and> q = CHR ''.'' \<and> f = CHR ''f''
             \<and> (48::nat) \<le> of_char d \<and> of_char d \<le> (57::nat)
          then Some (of_char d - 48) else None
      | _ \<Rightarrow> None)"

fun format_of :: "NumberColumn \<Rightarrow> string" where
  "format_of (NumberColumn label fmt) = fmt"

fun is_table :: "element \<Rightarrow> bool" where
  "is_table (Dataframe df h u cfg) = True"
| "is_table _ = False"

fun is_caption :: "element \<Rightarrow> bool" where
  "is_caption (Caption s) = True"
| "is_caption _ = False"

text \<open>
  The banners of the acquisition: a success, an information or an error other than the
  page's own no-data error. A cache filled by the program holds only such banners.
\<close>

fun is_banner :: "element \<Rightarrow> bool" where
  "is_banner (Success s) = True"
| "is_banner (Info s) = True"
| "is_banner (Error s) = (s \<noteq> no_data_message)"
| "is_banner _ = False"

definition cache_ok :: "cache \<Rightarrow> bool" where
  "cache_ok c = (case c of None \<Rightarrow> True | Some e \<Rightarrow> list_all is_banner (messages e))"

section \<open>Sample tables and worlds\<close>

text \<open>
  A sheet of quotes with a column the dashboard does not show, a row without an
  instrument identifier and a row whose identifier is the empty string.
\<close>

definition quote_labels :: "string list" where
  "quote_labels =
     [''Outrights'', ''Expiry'', ''Last'', ''Settle'', ''BidQty'', ''Bid'', ''Ask'', ''AskQty'', ''VWAP'']"

definition quotes :: DataFrame where
  "quotes =
     \<lparr>columns = quote_labels,
      rows =
        [[Str ''SR3Z5'', Str ''Dec'', Num 95.125, Num 95.12, Num 10, Num 95.12, Num 95.13, Num 7, Num 95.1234],
         [Null, Str ''Jan'', Num 96, Num 96, Num 1, Num 96, Num 96.5, Num 1, Num 96],
         [Str [], Str ''Feb'', Num 97, Num 97.5, Null, Num 97, Num 98, Null, Num 97.25]]\<rparr>"

text \<open>The snapshot file: the header twice, a quote, and a line without an identifier.\<close>

definition snapshot_header :: string where
  "snapshot_header = ''Outrights,Expiry,Last,Settle,BidQty,Bid,Ask,AskQty,VWAP''"

definition snapshot_lines :: "string list" where
  "snapshot_lines =
     [snapshot_header, snapshot_header,
      ''SR3H6,Mar,96.5,96.495,25,96.495,96.505,12,96.5012'',
      '',Jun,,,,,,,'']"

definition snapshot :: DataFrame where
  "snapshot =
     \<lparr>columns = quote_labels,
      rows =
        [[Str ''SR3H6'', Str ''Mar'', Num 96.5, Num 96.495, Num 25, Num 96.495, Num 96.505, Num 12, Num 96.5012],
         [Null, Str ''Jun'', Null, Null, Null, Null, Null, Null, Null]]\<rparr>"

text \<open>A sheet in which no row has an identifier, and a sheet without the identifier column.\<close>

definition blank_quotes :: DataFrame where
  "blank_quotes =
     \<lparr>columns = quote_labels,
      rows = [[Null, Str ''Jan'', Num 96, Num 96, Num 1, Num 96, Num 96.5, Num 1, Num 96]]\<rparr>"

definition unlabelled_quotes :: DataFrame where
  "unlabelled_quotes =
     \<lparr>columns = [''Contract'', ''Last'', ''Settle'', ''BidQty'', ''Bid'', ''Ask'', ''AskQty'', ''VWAP''],
      rows = [[Str ''SR3Z5'', Num 95.125, Num 95.12, Num 10, Num 95.12, Num 95.13, Num 7, Num 95.1234]]\<rparr>"

text \<open>A workbook whose sheet \<^verbatim>\<open>DAP_Main\<close> holds a given table.\<close>

definition workbook_with :: "DataFrame \<Rightarrow> string \<Rightarrow> exn + book" where
  "workbook_with t name =
     (if name = EXCEL_FILE then
        Inr (\<lambda>sheet_name.
               if sheet_name = SHEET_NAME then Inr (\<lambda>address. Inr t)
               else Inl (Exception ''sheet not found''))
      else Inl (Exception ''workbook not found''))"

text \<open>The workbook is open and there is no snapshot file; the button was not pressed.\<close>

definition live_world :: world where
  "live_world =
     \<lparr>xw_Book = workbook_with quotes,
      files = (\<lambda>path. None),
      pd_parser = (\<lambda>header lines. Inl (Exception ''Error tokenizing data'')),
      button = (\<lambda>label. False),
      now = 0,
      strftime = (\<lambda>format. ''09:30:00'')\<rparr>"

text \<open>The workbook is open and its sheet has no column named Outrights.\<close>

definition unlabelled_world :: world where
  "unlabelled_world = live_world\<lparr>xw_Book := workbook_with unlabelled_quotes\<rparr>"

text \<open>Excel is not running and there is no snapshot file.\<close>

definition offline_world :: world where
  "offline_world = live_world\<lparr>xw_Book := (\<lambda>name. Inl (Exception ''Excel is not running''))\<rparr>"

text \<open>
  Excel is not running; the snapshot file is there, and read with its second line as
  header row it parses to the snapshot table.
\<close>

definition fallback_world :: world where
  "fallback_world =
     offline_world
       \<lparr>files := (\<lambda>path. if path = CSV_FALLBACK then Some (Inr snapshot_lines) else None),
        pd_parser := (\<lambda>header lines.
                        if header = 1 \<and> lines = snapshot_lines then Inr snapshot
                        else Inl (Exception ''Error tokenizing data''))\<rparr>"

text \<open>Excel is not running; the snapshot file is there and cannot be opened.\<close>

definition unreadable_world :: world where
  "unreadable_world =
     offline_world
       \<lparr>files := (\<lambda>path. if path = CSV_FALLBACK then Some (Inl (Exception ''Permission denied''))
                          else None)\<rparr>"

text \<open>
  One second after a first run of the fallback world: the workbook has been opened, and
  the user presses the refresh button.
\<close>

definition refresh_world :: world where
  "refresh_world = live_world\<lparr>button := (\<lambda>label. label = refresh_label), now := 1\<rparr>"

definition snapshot_banners :: "element list" where
  "snapshot_banners =
     [Error ''Failed to connect to Excel with xlwings: Excel is not running'',
      Info ''Falling back to reading the static CSV snapshot: Live_DAP.xlsx - DAP_Main.csv'']"

definition snapshot_result :: DataFrame where
  "snapshot_result =
     \<lparr>columns = display_columns,
      rows = [[Str ''SR3H6'', Num 96.5, Num 96.495, Num 25, Num 96.495, Num 96.505, Num 12, Num 96.5012]]\<rparr>"

definition quotes_result :: DataFrame where
  "quotes_result =
     \<lparr>columns = display_columns,
      rows =
        [[Str ''SR3Z5'', Num 95.125, Num 95.12, Num 10, Num 95.12, Num 95.13, Num 7, Num 95.1234],
         [Str [], Num 97, Num 97.5, Null, Num 97, Num 98, Null, Num 97.25]]\<rparr>"

definition snapshot_cache :: cache where
  "snapshot_cache = Some \<lparr>stamp = 0, data = snapshot_result, messages = snapshot_banners\<rparr>"

section \<open>Lemmas about the cleaning step\<close>

lemma indexer_absent: "c \<notin> set xs \<Longrightarrow> indexer k xs c = []"
  by (induction xs arbitrary: k) auto

lemma indexer_once:
  "count_list xs c = 1 \<Longrightarrow>
   \<exists>i<length xs. xs ! i = c \<and> indexer k xs c = [k + i] \<and>
     (\<forall>r. (case map_of (zip xs r) c of Some v \<Rightarrow> v | None \<Rightarrow> Null) = cell_at r i)"
proof (induction xs arbitrary: k)
  case Nil
  then show ?case by simp
next
  case (Cons x xs)
  show ?case
  proof (cases "x = c")
    case True
    with Cons.prems have "c \<notin> set xs" by (simp add: count_list_0_iff)
    then have none: "indexer (Suc k) xs c = []" by (rule indexer_absent)
    have "(case map_of (zip (x # xs) r) c of Some v \<Rightarrow> v | None \<Rightarrow> Null) = cell_at r 0" for r
      using True by (cases r) (simp_all add: cell_at_def)
    with True none show ?thesis by (intro exI[of _ 0]) simp
  next
    case False
    with Cons.prems have "count_list xs c = 1" by simp
    from Cons.IH[OF this, of "Suc k"] obtain i where
      i: "i < length xs" "xs ! i = c" "indexer (Suc k) xs c = [Suc k + i]"
         "\<And>r. (case map_of (zip xs r) c of Some v \<Rightarrow> v | None \<Rightarrow> Null) = cell_at r i"
      by blast
    have "(case map_of (zip (x # xs) r) c of Some v \<Rightarrow> v | None \<Rightarrow> Null) = cell_at r (Suc i)" for r
    proof (cases r)
      case Nil
      then show ?thesis by (simp add: cell_at_def)
    next
      case (Cons a r')
      with False i(4)[of r'] show ?thesis by (simp add: cell_at_def)
    qed
    with False i(1,2,3) show ?thesis by (intro exI[of _ "Suc i"]) simp
  qed
qed

lemma get_indexer_for_once:
  assumes "count_list (columns t) c = 1"
  shows "\<exists>i. get_indexer_for (columns t) c = [i] \<and> columns t ! i = c \<and>
             (\<forall>r. cell_at r i = value_at t r c)"
  using indexer_once[OF assms, of 0] unfolding get_indexer_for_def value_at_def
  by auto

lemma select_labels:
  "list_all (\<lambda>c. count_list (columns (t::DataFrame)) c = 1) ks \<Longrightarrow>
   map (\<lambda>i. columns t ! i) (concat (map (get_indexer_for (columns t)) ks)) = ks"
proof (induction ks)
  case Nil
  show ?case by simp
next
  case (Cons k ks)
  then have "count_list (columns t) k = 1" by simp
  from get_indexer_for_once[OF this]
  obtain i where "get_indexer_for (columns t) k = [i]" "columns t ! i = k" by blast
  with Cons show ?case by simp
qed

lemma select_cells:
  "list_all (\<lambda>c. count_list (columns t) c = 1) ks \<Longrightarrow>
   map (cell_at r) (concat (map (get_indexer_for (columns t)) ks)) = map (value_at t r) ks"
proof (induction ks)
  case Nil
  show ?case by simp
next
  case (Cons k ks)
  then have "count_list (columns t) k = 1" by simp
  from get_indexer_for_once[OF this]
  obtain i where "get_indexer_for (columns t) k = [i]" "cell_at r i = value_at t r k" by blast
  with Cons show ?case by simp
qed

lemma once_present: "count_list xs c = 1 \<Longrightarrow> c \<in> set xs"
  by (metis count_list_0_iff zero_neq_one)

lemma display_columns_present:
  "has_display_columns t \<Longrightarrow> filter (\<lambda>c. c \<notin> set (columns t)) display_columns = []"
  by (auto simp: has_display_columns_def list_all_iff filter_empty_conv once_present)

lemma dropna_Outrights:
  assumes "count_list (columns t) ''Outrights'' = 1"
  shows "dropna [''Outrights''] t
         = Inr (t\<lparr>rows := filter (\<lambda>r. value_at t r ''Outrights'' \<noteq> Null) (rows t)\<rparr>)"
proof -
  from get_indexer_for_once[OF assms] obtain i where
    "get_indexer_for (columns t) ''Outrights'' = [i]"
    "\<And>r. cell_at r i = value_at t r ''Outrights''"
    by blast
  with once_present[OF assms] show ?thesis by (simp add: dropna_def)
qed

lemma post_processing_ok:
  assumes "has_display_columns t"
  shows "post_processing t
         = Inr \<lparr>columns = display_columns,
                rows = map (\<lambda>r. map (value_at t r) display_columns)
                         (filter (\<lambda>r. value_at t r ''Outrights'' \<noteq> Null) (rows t))\<rparr>"
proof -
  let ?t' = "t\<lparr>rows := filter (\<lambda>r. value_at t r ''Outrights'' \<noteq> Null) (rows t)\<rparr>"
  from assms have all: "list_all (\<lambda>c. count_list (columns t) c = 1) display_columns"
    by (simp add: has_display_columns_def)
  then have o: "count_list (columns t) ''Outrights'' = 1"
    by (simp add: display_columns_def)
  have v: "value_at ?t' r c = value_at t r c" for r c
    by (simp add: value_at_def)
  have "getitem ?t' display_columns
        = Inr \<lparr>columns = display_columns,
               rows = map (\<lambda>r. map (value_at t r) display_columns) (rows ?t')\<rparr>"
    using select_labels[of ?t' display_columns] select_cells[of ?t' display_columns]
      display_columns_present[OF assms] all
    by (simp add: getitem_def v)
  then show ?thesis by (simp add: post_processing_def dropna_Outrights[OF o])
qed

lemma post_processing_raises_iff:
  "(\<exists>x. post_processing t = Inl x) \<longleftrightarrow> \<not> set display_columns \<subseteq> set (columns t)"
  by (auto simp: post_processing_def dropna_def getitem_def Let_def display_columns_def
      split: sum.splits if_splits)

lemma post_processing_raises_KeyError:
  "post_processing t = Inl x \<Longrightarrow> \<exists>ks. x = KeyError ks"
  by (auto simp: post_processing_def dropna_def getitem_def Let_def
      split: sum.splits if_splits)

lemma get_live_data_source:
  "reads_source w t \<Longrightarrow> snd (get_live_data w) = post_processing t"
  by (auto simp: reads_source_def get_live_data_def Let_def split: sum.splits)

lemma get_live_data_no_source:
  "\<nexists>t. reads_source w t \<Longrightarrow> snd (get_live_data w) = Inr pd_DataFrame"
  by (auto simp: reads_source_def get_live_data_def Let_def split: sum.splits)

lemma get_live_data_raises_iff:
  "(\<exists>x. snd (get_live_data w) = Inl x)
   \<longleftrightarrow> (\<exists>t. reads_source w t \<and> \<not> set display_columns \<subseteq> set (columns t))"
proof (cases "\<exists>t. reads_source w t")
  case True
  then obtain t where t: "reads_source w t" by blast
  have only: "t' = t" if "reads_source w t'" for t'
    using that t by (auto simp: reads_source_def split: sum.splits)
  from get_live_data_source[OF t] post_processing_raises_iff[of t] t only
  show ?thesis by metis
next
  case False
  with get_live_data_no_source[of w] show ?thesis by auto
qed

lemma get_live_data_raises_KeyError:
  "snd (get_live_data w) = Inl x \<Longrightarrow> \<exists>ks. x = KeyError ks"
proof (cases "\<exists>t. reads_source w t")
  case True
  assume x: "snd (get_live_data w) = Inl x"
  from True obtain t where "reads_source w t" by blast
  from get_live_data_source[OF this] x post_processing_raises_KeyError[of t x]
  show ?thesis by simp
next
  case False
  assume "snd (get_live_data w) = Inl x"
  with get_live_data_no_source[of w] False show ?thesis by auto
qed

section \<open>Lemmas about the banners, the cache and the page\<close>

lemma get_live_data_banners: "list_all is_banner (fst (get_live_data w))"
  by (simp add: get_live_data_def Let_def no_data_message_def split: sum.splits)

lemma cached_get_live_data_banners:
  "cache_ok c \<Longrightarrow> list_all is_banner (fst (fst (cached_get_live_data w c)))"
  using get_live_data_banners[of w]
  by (auto simp: cached_get_live_data_def cache_ok_def fresh_def
      split: option.splits sum.splits prod.splits if_splits)

text \<open>Every cache the program fills holds only banners of the acquisition.\<close>

lemma cached_get_live_data_cache_ok:
  "cache_ok c \<Longrightarrow> cache_ok (snd (cached_get_live_data w c))"
  using get_live_data_banners[of w]
  by (auto simp: cached_get_live_data_def cache_ok_def fresh_def
      split: option.splits sum.splits prod.splits if_splits)

lemma main_cache_ok: "cache_ok c \<Longrightarrow> cache_ok (snd (main w c))"
  using cached_get_live_data_cache_ok[of c w]
  by (auto simp: main_def split: prod.splits sum.splits)

lemma banner_filters:
  "list_all is_banner out \<Longrightarrow>
   filter is_table out = [] \<and> filter is_caption out = [] \<and> Error no_data_message \<notin> set out"
proof (induction out)
  case Nil
  show ?case by simp
next
  case (Cons a out)
  then show ?case by (cases a) auto
qed

lemma page_top_filters:
  "filter is_table (page_top w) = [] \<and> filter is_caption (page_top w) = []
   \<and> Error no_data_message \<notin> set (page_top w)"
  by (simp add: page_top_def)

lemma cached_miss:
  "\<not> fresh c (now w) \<Longrightarrow>
   cached_get_live_data w c
   = (case get_live_data w of
        (out, Inr df) \<Rightarrow> ((out, Inr df), Some \<lparr>stamp = now w, data = df, messages = out\<rparr>)
      | (out, Inl e) \<Rightarrow> ((out, Inl e), c))"
  by (simp add: cached_get_live_data_def)

lemma get_live_data_sources_only:
  assumes "xw_Book w2 = xw_Book w1" and "files w2 = files w1" and "pd_parser w2 = pd_parser w1"
  shows "get_live_data w2 = get_live_data w1"
proof -
  from assms have "read_live w2 = read_live w1"
    and "os_path_exists w2 CSV_FALLBACK = os_path_exists w1 CSV_FALLBACK"
    and "read_csv w2 CSV_FALLBACK 1 = read_csv w1 CSV_FALLBACK 1"
    by (simp_all add: read_live_def os_path_exists_def read_csv_def
        split: option.splits sum.splits)
  then show ?thesis by (simp add: get_live_data_def Let_def split: sum.splits)
qed

lemma cached_hit:
  "fresh c (now w) \<Longrightarrow>
   \<exists>e. c = Some e \<and> cached_get_live_data w c = ((messages e, Inr (data e)), c)"
  by (auto simp: cached_get_live_data_def fresh_def split: option.splits)

lemma fresh_antimono: "fresh c t2 \<Longrightarrow> t1 \<le> t2 \<Longrightarrow> fresh c t1"
  by (auto simp: fresh_def split: option.splits)

text \<open>
  With the sources unchanged the acquisition is repeatable beyond the window too: after a
  call that had to compute its result, a later call returns the same result, served from
  the cache or computed again.
\<close>

lemma recomputed_acquisition_unchanged_sources:
  assumes src: "xw_Book w2 = xw_Book w1" "files w2 = files w1" "pd_parser w2 = pd_parser w1"
    and miss: "\<not> fresh c (now w1)"
    and later: "now w1 \<le> now w2"
  shows "snd (fst (cached_get_live_data w2 (snd (cached_get_live_data w1 c))))
         = snd (fst (cached_get_live_data w1 c))"
proof -
  note same = get_live_data_sources_only[OF src]
  obtain out res where g: "get_live_data w1 = (out, res)" by (cases "get_live_data w1")
  show ?thesis
  proof (cases res)
    case (Inl e)
    with g cached_miss[OF miss] have first: "cached_get_live_data w1 c = ((out, Inl e), c)"
      by simp
    from miss later have "\<not> fresh c (now w2)" by (blast dest: fresh_antimono)
    from cached_miss[OF this] same g Inl first show ?thesis by simp
  next
    case (Inr df)
    with g cached_miss[OF miss]
    have first: "cached_get_live_data w1 c
                 = ((out, Inr df), Some \<lparr>stamp = now w1, data = df, messages = out\<rparr>)"
      by simp
    show ?thesis
    proof (cases "fresh (Some \<lparr>stamp = now w1, data = df, messages = out\<rparr>) (now w2)")
      case True
      from cached_hit[OF True] first show ?thesis by auto
    next
      case False
      from cached_miss[OF False] same g Inr first show ?thesis by simp
    qed
  qed
qed

lemma page_data_filters:
  "filter is_table (page_data w df) = (if df_empty df then [] else [Dataframe df True True column_config])
   \<and> filter is_caption (page_data w df)
       = (if df_empty df then []
          else [Caption (''Last updated: **'' @ strftime w ''%H:%M:%S'' @ ''**'')])
   \<and> (Error no_data_message \<in> set (page_data w df) \<longleftrightarrow> df_empty df)"
  by (simp add: page_data_def)

lemma format_table:
  "map (\<lambda>c. map_option format_of (map_of column_config c))
       [''Outrights'', ''Last'', ''Settle'', ''BidQty'', ''Bid'', ''Ask'', ''AskQty'', ''VWAP'']
   = [None, Some ''%.3f'', Some ''%.3f'', None, Some ''%.3f'', Some ''%.3f'', None, Some ''%.4f'']"
  by (simp add: column_config_def)

lemma printf_precision_3: "printf_precision ''%.3f'' = Some 3"
  by (simp add: printf_precision_def)

lemma printf_precision_4: "printf_precision ''%.4f'' = Some 4"
  by (simp add: printf_precision_def)

section \<open>Facts about the sample worlds\<close>

lemma reads_live_world: "reads_source live_world quotes"
  by (simp add: reads_source_def read_live_def live_world_def workbook_with_def)

lemma has_display_columns_quotes: "has_display_columns quotes"
  by (simp add: has_display_columns_def display_columns_def quotes_def quote_labels_def)

lemma has_display_columns_snapshot: "has_display_columns snapshot"
  by (simp add: has_display_columns_def display_columns_def snapshot_def quote_labels_def)

lemma read_live_offline: "read_live offline_world = Inl (Exception ''Excel is not running'')"
  by (simp add: read_live_def offline_world_def live_world_def)

lemma read_live_fallback: "read_live fallback_world = Inl (Exception ''Excel is not running'')"
  by (simp add: read_live_def fallback_world_def offline_world_def live_world_def)

lemma read_live_unreadable: "read_live unreadable_world = Inl (Exception ''Excel is not running'')"
  by (simp add: read_live_def unreadable_world_def offline_world_def live_world_def)

lemma get_live_data_live_world:
  "get_live_data live_world
   = ([Success ''Successfully fetched data from live Excel sheet via xlwings.''], Inr quotes_result)"
  by (simp add: get_live_data_def read_live_def live_world_def workbook_with_def
      post_processing_def dropna_def getitem_def get_indexer_for_def cell_at_def
      display_columns_def quotes_def quote_labels_def quotes_result_def)

lemma get_live_data_fallback_world:
  "get_live_data fallback_world = (snapshot_banners, Inr snapshot_result)"
  by (simp add: get_live_data_def read_live_def fallback_world_def offline_world_def
      live_world_def os_path_exists_def read_csv_def snapshot_lines_def CSV_FALLBACK_def
      post_processing_def dropna_def getitem_def get_indexer_for_def cell_at_def
      display_columns_def snapshot_def quote_labels_def snapshot_result_def snapshot_banners_def)

lemma cached_fallback_world:
  "cached_get_live_data fallback_world None = ((snapshot_banners, Inr snapshot_result), snapshot_cache)"
proof -
  have "now fallback_world = 0"
    by (simp add: fallback_world_def offline_world_def live_world_def)
  then show ?thesis
    by (simp add: cached_get_live_data_def fresh_def get_live_data_fallback_world
        snapshot_cache_def)
qed

lemma fresh_snapshot_cache: "fresh snapshot_cache (now refresh_world)"
  by (simp add: fresh_def snapshot_cache_def refresh_world_def ttl_def)

lemma cached_live_world:
  "cached_get_live_data live_world None
   = (([Success ''Successfully fetched data from live Excel sheet via xlwings.''], Inr quotes_result),
      Some \<lparr>stamp = 0, data = quotes_result,
            messages = [Success ''Successfully fetched data from live Excel sheet via xlwings.'']\<rparr>)"
proof -
  have "now live_world = 0" by (simp add: live_world_def)
  then show ?thesis
    by (simp add: cached_get_live_data_def fresh_def get_live_data_live_world)
qed

lemma quotes_result_nonempty: "\<not> df_empty quotes_result"
  by (simp add: df_empty_def quotes_result_def display_columns_def)

lemma reads_blank_world: "reads_source (live_world\<lparr>xw_Book := workbook_with blank_quotes\<rparr>) blank_quotes"
  by (simp add: reads_source_def read_live_def workbook_with_def)

lemma has_display_columns_blank: "has_display_columns blank_quotes"
  by (simp add: has_display_columns_def display_columns_def blank_quotes_def quote_labels_def)

lemma blank_quotes_all_missing:
  "list_all (\<lambda>r. value_at blank_quotes r ''Outrights'' = Null) (rows blank_quotes)"
  by (simp add: value_at_def blank_quotes_def quote_labels_def)

lemma offline_no_file: "\<not> os_path_exists offline_world CSV_FALLBACK"
  by (simp add: os_path_exists_def offline_world_def live_world_def)

lemma get_live_data_offline_world:
  "get_live_data offline_world
   = ([Error ''Failed to connect to Excel with xlwings: Excel is not running'',
       Info ''Falling back to reading the static CSV snapshot: Live_DAP.xlsx - DAP_Main.csv'',
       Error ''Fallback CSV file not found: Live_DAP.xlsx - DAP_Main.csv''],
      Inr pd_DataFrame)"
  by (simp add: get_live_data_def read_live_def offline_world_def live_world_def
      os_path_exists_def CSV_FALLBACK_def)

lemma cached_offline_world:
  "cached_get_live_data offline_world None
   = (([Error ''Failed to connect to Excel with xlwings: Excel is not running'',
        Info ''Falling back to reading the static CSV snapshot: Live_DAP.xlsx - DAP_Main.csv'',
        Error ''Fallback CSV file not found: Live_DAP.xlsx - DAP_Main.csv''],
       Inr pd_DataFrame),
      Some \<lparr>stamp = 0, data = pd_DataFrame,
            messages =
              [Error ''Failed to connect to Excel with xlwings: Excel is not running'',
               Info ''Falling back to reading the static CSV snapshot: Live_DAP.xlsx - DAP_Main.csv'',
               Error ''Fallback CSV file not found: Live_DAP.xlsx - DAP_Main.csv'']\<rparr>)"
proof -
  have "now offline_world = 0" by (simp add: offline_world_def live_world_def)
  then show ?thesis
    by (simp add: cached_get_live_data_def fresh_def get_live_data_offline_world)
qed

lemma read_live_unlabelled: "read_live unlabelled_world = Inr unlabelled_quotes"
  by (simp add: read_live_def unlabelled_world_def workbook_with_def)

lemma get_live_data_unlabelled_world:
  "get_live_data unlabelled_world
   = ([Success ''Successfully fetched data from live Excel sheet via xlwings.''],
      Inl (KeyError [''Outrights'']))"
  by (simp add: get_live_data_def read_live_unlabelled post_processing_def dropna_def
      unlabelled_quotes_def)

lemma reads_unlabelled_world: "reads_source unlabelled_world unlabelled_quotes"
  by (simp add: reads_source_def read_live_unlabelled)

lemma read_csv_unreadable:
  "read_csv unreadable_world CSV_FALLBACK 1 = Inl (Exception ''Permission denied'')"
  by (simp add: read_csv_def unreadable_world_def)

lemma unreadable_file_exists: "os_path_exists unreadable_world CSV_FALLBACK"
  by (simp add: os_path_exists_def unreadable_world_def)

lemma not_fresh_None: "\<not> fresh None t"
  by (simp add: fresh_def)

section \<open>The properties of the acquisition\<close>

text \<open>
  Claim C1. Whatever table the acquisition reads, from the live sheet or from the
  fallback file, if each of the eight labels names exactly one of its columns, then
  \<^verbatim>\<open>get_live_data\<close> returns a table whose columns are Outrights, Last, Settle, BidQty,
  Bid, Ask, AskQty, VWAP in that order, and whose rows are the rows of the source with a
  value (anything but a missing value) under Outrights, in the order of the source, each
  reduced to its cells under the eight labels.
\<close>

theorem acquisition_filters_and_projects:
  assumes "reads_source w t" and "has_display_columns t"
  shows "snd (get_live_data w)
         = Inr \<lparr>columns = [''Outrights'', ''Last'', ''Settle'', ''BidQty'', ''Bid'', ''Ask'', ''AskQty'', ''VWAP''],
                rows = map (\<lambda>r. map (value_at t r)
                                  [''Outrights'', ''Last'', ''Settle'', ''BidQty'', ''Bid'', ''Ask'', ''AskQty'', ''VWAP''])
                         (filter (\<lambda>r. value_at t r ''Outrights'' \<noteq> Null) (rows t))\<rparr>"
  using get_live_data_source[OF assms(1)] post_processing_ok[OF assms(2)]
  by (simp add: display_columns_def)

theorem acquisition_filters_and_projects_witness:
  "reads_source live_world quotes \<and> has_display_columns quotes \<and>
   snd (get_live_data live_world)
   = Inr \<lparr>columns = [''Outrights'', ''Last'', ''Settle'', ''BidQty'', ''Bid'', ''Ask'', ''AskQty'', ''VWAP''],
          rows = [[Str ''SR3Z5'', Num 95.125, Num 95.12, Num 10, Num 95.12, Num 95.13, Num 7, Num 95.1234],
                  [Str [], Num 97, Num 97.5, Null, Num 97, Num 98, Null, Num 97.25]]\<rparr>"
  using acquisition_filters_and_projects[OF reads_live_world has_display_columns_quotes]
    reads_live_world has_display_columns_quotes
  by (simp add: value_at_def quotes_def quote_labels_def)

text \<open>
  Claim C4. When the live connection raises and the fallback file exists and pandas,
  reading it with its first row skipped (header row 1), gives a table with the eight
  named columns, as it does for a well-formed file whose header is repeated on its
  first two lines, then \<^verbatim>\<open>get_live_data\<close> returns that table cleaned as on the live
  path: the rows with a value under Outrights, reduced to the eight columns in order,
  which is what it returns when the live sheet holds the same table.
\<close>

theorem fallback_result_matches_file:
  assumes "read_live w = Inl e"
    and "files w CSV_FALLBACK = Some (Inr lines)"
    and "pd_parser w 1 lines = Inr t"
    and "has_display_columns t"
  shows "read_csv w CSV_FALLBACK 1 = Inr t
         \<and> snd (get_live_data w)
           = Inr \<lparr>columns = [''Outrights'', ''Last'', ''Settle'', ''BidQty'', ''Bid'', ''Ask'', ''AskQty'', ''VWAP''],
                  rows = map (\<lambda>r. map (value_at t r)
                                    [''Outrights'', ''Last'', ''Settle'', ''BidQty'', ''Bid'', ''Ask'', ''AskQty'', ''VWAP''])
                           (filter (\<lambda>r. value_at t r ''Outrights'' \<noteq> Null) (rows t))\<rparr>
         \<and> snd (get_live_data w) = snd (get_live_data (w\<lparr>xw_Book := workbook_with t\<rparr>))"
proof -
  have csv: "read_csv w CSV_FALLBACK 1 = Inr t"
    using assms(2,3) by (simp add: read_csv_def)
  with assms(1,2) have src: "reads_source w t"
    by (simp add: reads_source_def os_path_exists_def)
  have live: "reads_source (w\<lparr>xw_Book := workbook_with t\<rparr>) t"
    by (simp add: reads_source_def read_live_def workbook_with_def)
  from get_live_data_source[OF src] get_live_data_source[OF live] post_processing_ok[OF assms(4)] csv
  show ?thesis by (simp add: display_columns_def)
qed

theorem fallback_result_matches_file_witness:
  "read_live fallback_world = Inl (Exception ''Excel is not running'')
   \<and> files fallback_world CSV_FALLBACK
     = Some (Inr [snapshot_header, snapshot_header,
                  ''SR3H6,Mar,96.5,96.495,25,96.495,96.505,12,96.5012'', '',Jun,,,,,,,''])
   \<and> pd_parser fallback_world 1
        [snapshot_header, snapshot_header,
         ''SR3H6,Mar,96.5,96.495,25,96.495,96.505,12,96.5012'', '',Jun,,,,,,,'']
      = Inr snapshot
   \<and> has_display_columns snapshot
   \<and> read_csv fallback_world CSV_FALLBACK 1 = Inr snapshot
   \<and> snd (get_live_data fallback_world)
     = Inr \<lparr>columns = [''Outrights'', ''Last'', ''Settle'', ''BidQty'', ''Bid'', ''Ask'', ''AskQty'', ''VWAP''],
            rows = [[Str ''SR3H6'', Num 96.5, Num 96.495, Num 25, Num 96.495, Num 96.505, Num 12, Num 96.5012]]\<rparr>
   \<and> snd (get_live_data fallback_world)
     = snd (get_live_data (fallback_world\<lparr>xw_Book := workbook_with snapshot\<rparr>))"
proof -
  have f: "files fallback_world CSV_FALLBACK
     = Some (Inr [snapshot_header, snapshot_header,
                  ''SR3H6,Mar,96.5,96.495,25,96.495,96.505,12,96.5012'', '',Jun,,,,,,,''])"
    by (simp add: fallback_world_def snapshot_lines_def)
  have p: "pd_parser fallback_world 1
        [snapshot_header, snapshot_header,
         ''SR3H6,Mar,96.5,96.495,25,96.495,96.505,12,96.5012'', '',Jun,,,,,,,'']
      = Inr snapshot"
    by (simp add: fallback_world_def snapshot_lines_def)
  note th = fallback_result_matches_file[OF read_live_fallback f p has_display_columns_snapshot]
  from th have c: "read_csv fallback_world CSV_FALLBACK 1 = Inr snapshot"
    by blast
  from th have r: "snd (get_live_data fallback_world)
     = Inr \<lparr>columns = [''Outrights'', ''Last'', ''Settle'', ''BidQty'', ''Bid'', ''Ask'', ''AskQty'', ''VWAP''],
            rows = [[Str ''SR3H6'', Num 96.5, Num 96.495, Num 25, Num 96.495, Num 96.505, Num 12, Num 96.5012]]\<rparr>"
    by (simp add: value_at_def snapshot_def quote_labels_def)
  from th have l: "snd (get_live_data fallback_world)
     = snd (get_live_data (fallback_world\<lparr>xw_Book := workbook_with snapshot\<rparr>))"
    by blast
  from read_live_fallback f p has_display_columns_snapshot c r l show ?thesis by (intro conjI)
qed

text \<open>
  Claim C5. When the live connection raises and the fallback file does not exist, or
  reading it raises, \<^verbatim>\<open>get_live_data\<close> returns the empty table \<^verbatim>\<open>pd.DataFrame()\<close>, and
  the banners it shows end with an error: that the file was not found, or that reading
  it failed, after the error about the live connection and the note about the fallback.
\<close>

theorem no_source_gives_empty_result_and_error:
  assumes "read_live w = Inl e"
    and "files w CSV_FALLBACK = None \<or> read_csv w CSV_FALLBACK 1 = Inl e'"
  shows "snd (get_live_data w) = Inr pd_DataFrame
         \<and> df_empty pd_DataFrame
         \<and> fst (get_live_data w)
           = [Error (''Failed to connect to Excel with xlwings: '' @ str_exn e),
              Info ''Falling back to reading the static CSV snapshot: Live_DAP.xlsx - DAP_Main.csv'',
              Error (if files w CSV_FALLBACK = None
                     then ''Fallback CSV file not found: Live_DAP.xlsx - DAP_Main.csv''
                     else ''Failed to read fallback CSV: '' @ str_exn e')]"
  using assms
  by (auto simp: get_live_data_def os_path_exists_def Let_def CSV_FALLBACK_def
      pd_DataFrame_def df_empty_def)

theorem no_source_gives_empty_result_and_error_witness:
  "read_live offline_world = Inl (Exception ''Excel is not running'')
   \<and> files offline_world CSV_FALLBACK = None
   \<and> snd (get_live_data offline_world) = Inr pd_DataFrame
   \<and> fst (get_live_data offline_world)
     = [Error ''Failed to connect to Excel with xlwings: Excel is not running'',
        Info ''Falling back to reading the static CSV snapshot: Live_DAP.xlsx - DAP_Main.csv'',
        Error ''Fallback CSV file not found: Live_DAP.xlsx - DAP_Main.csv'']
   \<and> read_live unreadable_world = Inl (Exception ''Excel is not running'')
   \<and> read_csv unreadable_world CSV_FALLBACK 1 = Inl (Exception ''Permission denied'')
   \<and> snd (get_live_data unreadable_world) = Inr pd_DataFrame
   \<and> fst (get_live_data unreadable_world)
     = [Error ''Failed to connect to Excel with xlwings: Excel is not running'',
        Info ''Falling back to reading the static CSV snapshot: Live_DAP.xlsx - DAP_Main.csv'',
        Error ''Failed to read fallback CSV: Permission denied'']"
proof -
  have n: "files offline_world CSV_FALLBACK = None"
    by (simp add: offline_world_def live_world_def)
  have r: "read_csv unreadable_world CSV_FALLBACK 1 = Inl (Exception ''Permission denied'')"
    by (simp add: read_csv_def unreadable_world_def)
  have f: "files unreadable_world CSV_FALLBACK \<noteq> None"
    by (simp add: unreadable_world_def)
  from no_source_gives_empty_result_and_error[OF read_live_offline disjI1, OF n] n
  have a: "snd (get_live_data offline_world) = Inr pd_DataFrame
     \<and> fst (get_live_data offline_world)
       = [Error ''Failed to connect to Excel with xlwings: Excel is not running'',
          Info ''Falling back to reading the static CSV snapshot: Live_DAP.xlsx - DAP_Main.csv'',
          Error ''Fallback CSV file not found: Live_DAP.xlsx - DAP_Main.csv'']"
    by simp
  from no_source_gives_empty_result_and_error[OF read_live_unreadable disjI2, OF r] f
  have b: "snd (get_live_data unreadable_world) = Inr pd_DataFrame
     \<and> fst (get_live_data unreadable_world)
       = [Error ''Failed to connect to Excel with xlwings: Excel is not running'',
          Info ''Falling back to reading the static CSV snapshot: Live_DAP.xlsx - DAP_Main.csv'',
          Error ''Failed to read fallback CSV: Permission denied'']"
    by simp
  from read_live_offline n a read_live_unreadable r b show ?thesis by (intro conjI) simp_all
qed

text \<open>
  Claim C3, as the program has it. A failure of the live connection is caught and shown
  as an error banner, and the fallback file is tried. A failure of reading the fallback
  file, and its absence, are caught and shown as an error banner, and the empty table is
  returned. The cleaning and the projection run after both handlers: an exception leaves
  \<^verbatim>\<open>get_live_data\<close> exactly when a source was read and its table lacks one of the eight
  labels, and that exception is a \<^verbatim>\<open>KeyError\<close>.
\<close>

theorem reading_failures_caught_cleaning_failures_escape:
  "(read_live w = Inl e
      \<longrightarrow> Error (''Failed to connect to Excel with xlwings: '' @ str_exn e) \<in> set (fst (get_live_data w)))
   \<and> (read_live w = Inl e \<and> os_path_exists w CSV_FALLBACK \<and> read_csv w CSV_FALLBACK 1 = Inl e'
      \<longrightarrow> Error (''Failed to read fallback CSV: '' @ str_exn e') \<in> set (fst (get_live_data w))
          \<and> snd (get_live_data w) = Inr pd_DataFrame)
   \<and> (read_live w = Inl e \<and> \<not> os_path_exists w CSV_FALLBACK
      \<longrightarrow> Error (''Fallback CSV file not found: '' @ CSV_FALLBACK) \<in> set (fst (get_live_data w))
          \<and> snd (get_live_data w) = Inr pd_DataFrame)
   \<and> ((\<exists>x. snd (get_live_data w) = Inl x)
       \<longleftrightarrow> (\<exists>t. reads_source w t \<and> \<not> set display_columns \<subseteq> set (columns t)))
   \<and> (snd (get_live_data w) = Inl x \<longrightarrow> (\<exists>ks. x = KeyError ks))"
proof (intro conjI impI)
  assume "read_live w = Inl e"
  then show "Error (''Failed to connect to Excel with xlwings: '' @ str_exn e) \<in> set (fst (get_live_data w))"
    by (simp add: get_live_data_def Let_def split: sum.splits)
next
  assume a: "read_live w = Inl e \<and> os_path_exists w CSV_FALLBACK \<and> read_csv w CSV_FALLBACK 1 = Inl e'"
  then show "Error (''Failed to read fallback CSV: '' @ str_exn e') \<in> set (fst (get_live_data w))"
    by (simp add: get_live_data_def Let_def)
  from a show "snd (get_live_data w) = Inr pd_DataFrame"
    by (simp add: get_live_data_def Let_def)
next
  assume a: "read_live w = Inl e \<and> \<not> os_path_exists w CSV_FALLBACK"
  then show "Error (''Fallback CSV file not found: '' @ CSV_FALLBACK) \<in> set (fst (get_live_data w))"
    by (simp add: get_live_data_def Let_def)
  from a show "snd (get_live_data w) = Inr pd_DataFrame"
    by (simp add: get_live_data_def Let_def)
next
  show "(\<exists>x. snd (get_live_data w) = Inl x)
       \<longleftrightarrow> (\<exists>t. reads_source w t \<and> \<not> set display_columns \<subseteq> set (columns t))"
    by (rule get_live_data_raises_iff)
next
  assume "snd (get_live_data w) = Inl x"
  then show "\<exists>ks. x = KeyError ks" by (rule get_live_data_raises_KeyError)
qed

theorem reading_failures_caught_cleaning_failures_escape_witness:
  "read_live unreadable_world = Inl (Exception ''Excel is not running'')
   \<and> os_path_exists unreadable_world CSV_FALLBACK
   \<and> read_csv unreadable_world CSV_FALLBACK 1 = Inl (Exception ''Permission denied'')
   \<and> Error ''Failed to connect to Excel with xlwings: Excel is not running''
       \<in> set (fst (get_live_data unreadable_world))
   \<and> Error ''Failed to read fallback CSV: Permission denied''
       \<in> set (fst (get_live_data unreadable_world))
   \<and> snd (get_live_data unreadable_world) = Inr pd_DataFrame
   \<and> reads_source unlabelled_world unlabelled_quotes
   \<and> ''Outrights'' \<notin> set (columns unlabelled_quotes)
   \<and> (\<exists>x. snd (get_live_data unlabelled_world) = Inl x)"
proof -
  note a = reading_failures_caught_cleaning_failures_escape
      [of unreadable_world "Exception ''Excel is not running''" "Exception ''Permission denied''"]
  note b = reading_failures_caught_cleaning_failures_escape[of unlabelled_world]
  have o: "''Outrights'' \<notin> set (columns unlabelled_quotes)"
    by (simp add: unlabelled_quotes_def)
  then have "\<not> set display_columns \<subseteq> set (columns unlabelled_quotes)"
    by (auto simp: display_columns_def)
  with b reads_unlabelled_world have x: "\<exists>x. snd (get_live_data unlabelled_world) = Inl x"
    by blast
  from a read_live_unreadable unreadable_file_exists read_csv_unreadable
  have "Error ''Failed to connect to Excel with xlwings: Excel is not running''
          \<in> set (fst (get_live_data unreadable_world))"
    and "Error ''Failed to read fallback CSV: Permission denied''
          \<in> set (fst (get_live_data unreadable_world))"
    and "snd (get_live_data unreadable_world) = Inr pd_DataFrame"
    by simp_all
  with read_live_unreadable unreadable_file_exists read_csv_unreadable reads_unlabelled_world o x
  show ?thesis by (intro conjI)
qed

text \<open>
  Claim C3 as first stated (no failure leaves the acquisition) fails here. The workbook
  is open and its sheet has the columns Contract, Last, Settle, BidQty, Bid, Ask, AskQty
  and VWAP: the read succeeds,
  the success banner is shown, and the cleaning step raises \<^verbatim>\<open>KeyError\<close> for the
  label Outrights. Nothing catches it: it leaves \<^verbatim>\<open>get_live_data\<close>, nothing is cached,
  and it leaves \<^verbatim>\<open>main\<close> before a table or an error is put on the page.
\<close>

theorem cleaning_failure_escapes:
  "read_live unlabelled_world = Inr unlabelled_quotes
   \<and> get_live_data unlabelled_world
     = ([Success ''Successfully fetched data from live Excel sheet via xlwings.''],
        Inl (KeyError [''Outrights'']))
   \<and> main unlabelled_world None
     = ((page_top unlabelled_world
         @ [Success ''Successfully fetched data from live Excel sheet via xlwings.''],
         Inl (KeyError [''Outrights''])),
        None)"
  by (simp add: read_live_unlabelled get_live_data_unlabelled_world main_def
      cached_get_live_data_def fresh_def)

text \<open>
  Claim C9. When the live connection raises and the fallback file is missing or reading
  it raises, the table returned has no rows and no columns. When a source was read, has
  the eight named columns and has no row with a value under Outrights, the table
  returned has no rows and its eight columns.
\<close>

theorem empty_result_has_no_columns:
  "(read_live w = Inl e \<and> (\<not> os_path_exists w CSV_FALLBACK \<or> read_csv w CSV_FALLBACK 1 = Inl e')
      \<longrightarrow> (\<exists>df. snd (get_live_data w) = Inr df \<and> length (rows df) = 0 \<and> length (columns df) = 0))
   \<and> (reads_source w' t \<and> has_display_columns t
        \<and> list_all (\<lambda>r. value_at t r ''Outrights'' = Null) (rows t)
      \<longrightarrow> (\<exists>df. snd (get_live_data w') = Inr df \<and> length (rows df) = 0 \<and> length (columns df) = 8
                \<and> columns df = [''Outrights'', ''Last'', ''Settle'', ''BidQty'', ''Bid'', ''Ask'', ''AskQty'', ''VWAP'']))"
proof (intro conjI impI)
  assume "read_live w = Inl e \<and> (\<not> os_path_exists w CSV_FALLBACK \<or> read_csv w CSV_FALLBACK 1 = Inl e')"
  then have "snd (get_live_data w) = Inr pd_DataFrame"
    by (auto simp: get_live_data_def Let_def)
  then show "\<exists>df. snd (get_live_data w) = Inr df \<and> length (rows df) = 0 \<and> length (columns df) = 0"
    by (simp add: pd_DataFrame_def)
next
  assume a: "reads_source w' t \<and> has_display_columns t
        \<and> list_all (\<lambda>r. value_at t r ''Outrights'' = Null) (rows t)"
  then have "filter (\<lambda>r. value_at t r ''Outrights'' \<noteq> Null) (rows t) = []"
    by (simp add: filter_empty_conv list_all_iff)
  with a get_live_data_source[of w' t] post_processing_ok[of t]
  show "\<exists>df. snd (get_live_data w') = Inr df \<and> length (rows df) = 0 \<and> length (columns df) = 8
                \<and> columns df = [''Outrights'', ''Last'', ''Settle'', ''BidQty'', ''Bid'', ''Ask'', ''AskQty'', ''VWAP'']"
    by (simp add: display_columns_def)
qed

theorem empty_result_has_no_columns_witness:
  "read_live offline_world = Inl (Exception ''Excel is not running'')
   \<and> \<not> os_path_exists offline_world CSV_FALLBACK
   \<and> (\<exists>df. snd (get_live_data offline_world) = Inr df \<and> length (rows df) = 0 \<and> length (columns df) = 0)
   \<and> reads_source (live_world\<lparr>xw_Book := workbook_with blank_quotes\<rparr>) blank_quotes
   \<and> has_display_columns blank_quotes
   \<and> list_all (\<lambda>r. value_at blank_quotes r ''Outrights'' = Null) (rows blank_quotes)
   \<and> (\<exists>df. snd (get_live_data (live_world\<lparr>xw_Book := workbook_with blank_quotes\<rparr>)) = Inr df
          \<and> length (rows df) = 0 \<and> length (columns df) = 8)"
  using empty_result_has_no_columns[of offline_world "Exception ''Excel is not running''" undefined
      "live_world\<lparr>xw_Book := workbook_with blank_quotes\<rparr>" blank_quotes]
    read_live_offline offline_no_file reads_blank_world has_display_columns_blank
    blank_quotes_all_missing
  by blast

text \<open>
  Claim C10. Only a missing value under Outrights removes a row. When the source read has
  the eight named columns, every row of it with a value under Outrights, the empty string
  included, is in the table returned, reduced to the eight columns; the table returned
  has as many rows as the source has rows with a value under Outrights; and in a run
  that does not take the table from the cache, this table is the one shown on the page.
\<close>

theorem identified_rows_are_kept_and_shown:
  assumes "reads_source w t" and "has_display_columns t"
    and "r \<in> set (rows t)" and "value_at t r ''Outrights'' \<noteq> Null"
    and "\<not> fresh c (now w)"
  shows "\<exists>df. snd (get_live_data w) = Inr df
           \<and> map (value_at t r)
                 [''Outrights'', ''Last'', ''Settle'', ''BidQty'', ''Bid'', ''Ask'', ''AskQty'', ''VWAP'']
               \<in> set (rows df)
           \<and> length (rows df) = length (filter (\<lambda>r. value_at t r ''Outrights'' \<noteq> Null) (rows t))
           \<and> Dataframe df True True column_config \<in> set (fst (fst (main w c)))"
proof -
  define kept where "kept = filter (\<lambda>r. value_at t r ''Outrights'' \<noteq> Null) (rows t)"
  define df where "df = \<lparr>columns = display_columns,
                         rows = map (\<lambda>r. map (value_at t r) display_columns) kept\<rparr>"
  from get_live_data_source[OF assms(1)] post_processing_ok[OF assms(2)]
  have res: "snd (get_live_data w) = Inr df" by (simp add: df_def kept_def)
  from assms(3,4) have r: "r \<in> set kept" by (simp add: kept_def)
  then have mem: "map (value_at t r) display_columns \<in> set (rows df)"
    unfolding df_def by (simp only: DataFrame.simps set_map) (rule imageI)
  from r have "kept \<noteq> []" by auto
  then have ne: "\<not> df_empty df" by (simp add: df_empty_def df_def display_columns_def)
  have len: "length (rows df) = length kept" by (simp add: df_def)
  from res obtain out where "get_live_data w = (out, Inr df)"
    by (cases "get_live_data w") simp
  with cached_miss[OF assms(5)] ne
  have shown: "Dataframe df True True column_config \<in> set (fst (fst (main w c)))"
    by (simp add: main_def page_data_def)
  from res mem len shown show ?thesis
    unfolding kept_def display_columns_def by blast
qed

theorem identified_rows_are_kept_and_shown_witness:
  "reads_source live_world quotes \<and> has_display_columns quotes
   \<and> [Str [], Str ''Feb'', Num 97, Num 97.5, Null, Num 97, Num 98, Null, Num 97.25] \<in> set (rows quotes)
   \<and> value_at quotes [Str [], Str ''Feb'', Num 97, Num 97.5, Null, Num 97, Num 98, Null, Num 97.25]
        ''Outrights'' = Str []
   \<and> \<not> fresh None (now live_world)
   \<and> (\<exists>df. snd (get_live_data live_world) = Inr df
          \<and> [Str [], Num 97, Num 97.5, Null, Num 97, Num 98, Null, Num 97.25] \<in> set (rows df)
          \<and> length (rows df) = 2
          \<and> Dataframe df True True column_config \<in> set (fst (fst (main live_world None))))"
proof -
  let ?r = "[Str [], Str ''Feb'', Num 97, Num 97.5, Null, Num 97, Num 98, Null, Num 97.25]"
  have m: "?r \<in> set (rows quotes)" by (simp add: quotes_def)
  have v: "value_at quotes ?r ''Outrights'' = Str []"
    by (simp add: value_at_def quotes_def quote_labels_def)
  then have v': "value_at quotes ?r ''Outrights'' \<noteq> Null" by simp
  have p: "map (value_at quotes ?r)
             [''Outrights'', ''Last'', ''Settle'', ''BidQty'', ''Bid'', ''Ask'', ''AskQty'', ''VWAP'']
           = [Str [], Num 97, Num 97.5, Null, Num 97, Num 98, Null, Num 97.25]"
    by (simp add: value_at_def quotes_def quote_labels_def)
  have l: "length (filter (\<lambda>r. value_at quotes r ''Outrights'' \<noteq> Null) (rows quotes)) = 2"
    by (simp add: value_at_def quotes_def quote_labels_def)
  from identified_rows_are_kept_and_shown
      [OF reads_live_world has_display_columns_quotes m v' not_fresh_None]
  have "\<exists>df. snd (get_live_data live_world) = Inr df
          \<and> [Str [], Num 97, Num 97.5, Null, Num 97, Num 98, Null, Num 97.25] \<in> set (rows df)
          \<and> length (rows df) = 2
          \<and> Dataframe df True True column_config \<in> set (fst (fst (main live_world None)))"
    unfolding p l .
  with reads_live_world has_display_columns_quotes m v not_fresh_None show ?thesis
    by (intro conjI)
qed

section \<open>The properties of the cache and of the refresh button\<close>

text \<open>
  Claim C6. When a call of the cached acquisition returns a table, every later call made
  while the cache entry that served or stored it is within its time-to-live returns the
  same table and leaves the cache as it is, whatever the sources hold by then.
\<close>

theorem repeated_acquisition_within_window:
  assumes "cached_get_live_data w1 c = ((out1, Inr df1), c1)"
    and "fresh c1 (now w2)"
  shows "snd (fst (cached_get_live_data w2 c1)) = Inr df1
         \<and> snd (cached_get_live_data w2 c1) = c1"
proof -
  from cached_hit[OF assms(2)] obtain e where
    e: "c1 = Some e" "cached_get_live_data w2 c1 = ((messages e, Inr (data e)), c1)"
    by blast
  have "data e = df1"
  proof (cases "fresh c (now w1)")
    case True
    from cached_hit[OF True] assms(1) e(1) show ?thesis by auto
  next
    case False
    from cached_miss[OF False] assms(1) e(1) show ?thesis
      by (auto split: prod.splits sum.splits)
  qed
  with e(2) show ?thesis by simp
qed

theorem repeated_acquisition_within_window_witness:
  "cached_get_live_data fallback_world None = ((snapshot_banners, Inr snapshot_result), snapshot_cache)
   \<and> fresh snapshot_cache (now refresh_world)
   \<and> snd (fst (cached_get_live_data refresh_world snapshot_cache)) = Inr snapshot_result
   \<and> snd (cached_get_live_data refresh_world snapshot_cache) = snapshot_cache"
  using repeated_acquisition_within_window[OF cached_fallback_world fresh_snapshot_cache]
    cached_fallback_world fresh_snapshot_cache
  by simp

text \<open>
  Claim C2, evaluated where the program departs from it. A first run at time 0 finds
  Excel closed and fills the cache from the snapshot file. One second later the workbook
  is open with other quotes and the user presses the refresh button. The press only adds
  the balloons: the entry is still within its two seconds, so the acquisition returns the
  cached snapshot without reading the workbook, and the page shows the snapshot again.
\<close>

theorem refresh_button_within_window_serves_cache:
  "main fallback_world None
     = ((page_top fallback_world @ snapshot_banners @ page_data fallback_world snapshot_result, Inr ()),
        snapshot_cache)
   \<and> button refresh_world refresh_label
   \<and> fresh snapshot_cache (now refresh_world)
   \<and> get_live_data refresh_world
     = ([Success ''Successfully fetched data from live Excel sheet via xlwings.''], Inr quotes_result)
   \<and> quotes_result \<noteq> snapshot_result
   \<and> cached_get_live_data refresh_world snapshot_cache
     = ((snapshot_banners, Inr snapshot_result), snapshot_cache)
   \<and> main refresh_world snapshot_cache
     = ((page_top refresh_world @ snapshot_banners @ page_data refresh_world snapshot_result, Inr ()),
        snapshot_cache)"
proof -
  have live: "get_live_data refresh_world
     = ([Success ''Successfully fetched data from live Excel sheet via xlwings.''], Inr quotes_result)"
    by (simp add: get_live_data_def read_live_def refresh_world_def live_world_def
        workbook_with_def post_processing_def dropna_def getitem_def get_indexer_for_def
        cell_at_def display_columns_def quotes_def quote_labels_def quotes_result_def)
  have hit: "cached_get_live_data refresh_world snapshot_cache
     = ((snapshot_banners, Inr snapshot_result), snapshot_cache)"
    using fresh_snapshot_cache by (simp add: cached_get_live_data_def snapshot_cache_def)
  have "quotes_result \<noteq> snapshot_result"
    by (simp add: quotes_result_def snapshot_result_def)
  moreover have "button refresh_world refresh_label"
    by (simp add: refresh_world_def)
  moreover note fresh_snapshot_cache
  ultimately show ?thesis
    using live hit cached_fallback_world
    by (simp add: main_def)
qed

section \<open>The properties of the page\<close>

text \<open>
  Claim C7. In a run whose acquisition returns a table, with a cache that holds only
  banners of the acquisition (as every cache the program fills does), the page has
  exactly one table, the one returned, and exactly one caption with the time of the
  run, when the table is not empty, and no table and no caption when it is empty; the
  no-data error is on the page exactly when the table is empty.
\<close>

theorem page_shows_table_iff_result_nonempty:
  assumes "cache_ok c"
    and "cached_get_live_data w c = ((out, Inr df), c')"
  shows "filter is_table (fst (fst (main w c)))
         = (if df_empty df then [] else [Dataframe df True True column_config])
         \<and> filter is_caption (fst (fst (main w c)))
           = (if df_empty df then []
              else [Caption (''Last updated: **'' @ strftime w ''%H:%M:%S'' @ ''**'')])
         \<and> (Error no_data_message \<in> set (fst (fst (main w c))) \<longleftrightarrow> df_empty df)"
proof -
  from cached_get_live_data_banners[OF assms(1), of w] assms(2)
  have "list_all is_banner out" by simp
  from banner_filters[OF this] page_top_filters[of w] page_data_filters[of w df] assms(2)
  show ?thesis by (simp add: main_def)
qed

theorem page_shows_table_iff_result_nonempty_witness:
  "cache_ok None
   \<and> cached_get_live_data live_world None
     = (([Success ''Successfully fetched data from live Excel sheet via xlwings.''], Inr quotes_result),
        Some \<lparr>stamp = 0, data = quotes_result,
              messages = [Success ''Successfully fetched data from live Excel sheet via xlwings.'']\<rparr>)
   \<and> \<not> df_empty quotes_result
   \<and> filter is_table (fst (fst (main live_world None)))
     = [Dataframe quotes_result True True column_config]
   \<and> filter is_caption (fst (fst (main live_world None))) = [Caption ''Last updated: **09:30:00**'']
   \<and> Error no_data_message \<notin> set (fst (fst (main live_world None)))
   \<and> cached_get_live_data offline_world None
     = (([Error ''Failed to connect to Excel with xlwings: Excel is not running'',
          Info ''Falling back to reading the static CSV snapshot: Live_DAP.xlsx - DAP_Main.csv'',
          Error ''Fallback CSV file not found: Live_DAP.xlsx - DAP_Main.csv''],
         Inr pd_DataFrame),
        Some \<lparr>stamp = 0, data = pd_DataFrame,
              messages =
                [Error ''Failed to connect to Excel with xlwings: Excel is not running'',
                 Info ''Falling back to reading the static CSV snapshot: Live_DAP.xlsx - DAP_Main.csv'',
                 Error ''Fallback CSV file not found: Live_DAP.xlsx - DAP_Main.csv'']\<rparr>)
   \<and> df_empty pd_DataFrame
   \<and> filter is_table (fst (fst (main offline_world None))) = []
   \<and> filter is_caption (fst (fst (main offline_world None))) = []
   \<and> Error no_data_message \<in> set (fst (fst (main offline_world None)))"
proof -
  have ok: "cache_ok None" by (simp add: cache_ok_def)
  have clock: "strftime live_world ''%H:%M:%S'' = ''09:30:00''" by (simp add: live_world_def)
  have e: "df_empty pd_DataFrame" by (simp add: df_empty_def pd_DataFrame_def)
  from page_shows_table_iff_result_nonempty[OF ok cached_live_world] quotes_result_nonempty clock
  have a: "filter is_table (fst (fst (main live_world None)))
       = [Dataframe quotes_result True True column_config]
     \<and> filter is_caption (fst (fst (main live_world None))) = [Caption ''Last updated: **09:30:00**'']
     \<and> Error no_data_message \<notin> set (fst (fst (main live_world None)))"
    by simp
  from page_shows_table_iff_result_nonempty[OF ok cached_offline_world] e
  have b: "filter is_table (fst (fst (main offline_world None))) = []
     \<and> filter is_caption (fst (fst (main offline_world None))) = []
     \<and> Error no_data_message \<in> set (fst (fst (main offline_world None)))"
    by simp
  from ok cached_live_world quotes_result_nonempty a cached_offline_world e b
  show ?thesis by (intro conjI) simp_all
qed

text \<open>
  Claim C8. In a run whose acquisition returns a table that is not empty, the page shows
  that table with a column configuration that gives Last, Settle, Bid and Ask the number
  format \<^verbatim>\<open>%.3f\<close> (three decimal places), VWAP the format \<^verbatim>\<open>%.4f\<close> (four), and no
  format to Outrights, BidQty and AskQty.
\<close>

theorem table_has_fixed_number_formats:
  assumes "cached_get_live_data w c = ((out, Inr df), c')"
    and "\<not> df_empty df"
  shows "\<exists>cfg. Dataframe df True True cfg \<in> set (fst (fst (main w c)))
           \<and> map (\<lambda>c. map_option format_of (map_of cfg c))
                 [''Outrights'', ''Last'', ''Settle'', ''BidQty'', ''Bid'', ''Ask'', ''AskQty'', ''VWAP'']
             = [None, Some ''%.3f'', Some ''%.3f'', None, Some ''%.3f'', Some ''%.3f'', None, Some ''%.4f'']
           \<and> map (\<lambda>c. map_option (printf_precision \<circ> format_of) (map_of cfg c))
                 [''Last'', ''Settle'', ''Bid'', ''Ask'', ''VWAP'']
             = [Some (Some 3), Some (Some 3), Some (Some 3), Some (Some 3), Some (Some 4)]"
proof (intro exI[of _ column_config] conjI)
  show "Dataframe df True True column_config \<in> set (fst (fst (main w c)))"
    using assms by (simp add: main_def page_data_def)
  show "map (\<lambda>c. map_option format_of (map_of column_config c))
                 [''Outrights'', ''Last'', ''Settle'', ''BidQty'', ''Bid'', ''Ask'', ''AskQty'', ''VWAP'']
             = [None, Some ''%.3f'', Some ''%.3f'', None, Some ''%.3f'', Some ''%.3f'', None, Some ''%.4f'']"
    by (rule format_table)
  show "map (\<lambda>c. map_option (printf_precision \<circ> format_of) (map_of column_config c))
                 [''Last'', ''Settle'', ''Bid'', ''Ask'', ''VWAP'']
             = [Some (Some 3), Some (Some 3), Some (Some 3), Some (Some 3), Some (Some 4)]"
    by (simp add: column_config_def printf_precision_3 printf_precision_4)
qed

theorem table_has_fixed_number_formats_witness:
  "cached_get_live_data live_world None
     = (([Success ''Successfully fetched data from live Excel sheet via xlwings.''], Inr quotes_result),
        Some \<lparr>stamp = 0, data = quotes_result,
              messages = [Success ''Successfully fetched data from live Excel sheet via xlwings.'']\<rparr>)
   \<and> \<not> df_empty quotes_result
   \<and> (\<exists>cfg. Dataframe quotes_result True True cfg \<in> set (fst (fst (main live_world None)))
           \<and> map (\<lambda>c. map_option format_of (map_of cfg c))
                 [''Outrights'', ''Last'', ''Settle'', ''BidQty'', ''Bid'', ''Ask'', ''AskQty'', ''VWAP'']
             = [None, Some ''%.3f'', Some ''%.3f'', None, Some ''%.3f'', Some ''%.3f'', None, Some ''%.4f'']
           \<and> map (\<lambda>c. map_option (printf_precision \<circ> format_of) (map_of cfg c))
                 [''Last'', ''Settle'', ''Bid'', ''Ask'', ''VWAP'']
             = [Some (Some 3), Some (Some 3), Some (Some 3), Some (Some 3), Some (Some 4)])"
  by (intro conjI cached_live_world quotes_result_nonempty
      table_has_fixed_number_formats[OF cached_live_world quotes_result_nonempty])

end
